theory Spec2Isabelle
  imports Main "HOL-Library.Word"
begin

section \<open>JavaScript values\<close>

text \<open>
  The values the handlers of \<^verbatim>\<open>index.js\<close> compute with are decoded JSON documents
  (request bodies, query strings, Graph API responses) and \<^verbatim>\<open>undefined\<close>.
  An object is the list of its own properties in insertion order. JSON numbers are
  modelled by the integers; strings are lists of code units.
\<close>

datatype jsval =
    Undefined
  | Null
  | Bool bool
  | Num int
  | Str string
  | Arr "jsval list"
  | Obj "(string \<times> jsval) list"

record axios_response =
  resp_status :: int
  resp_data :: jsval

text \<open>
  What a \<^verbatim>\<open>throw\<close> or a rejected promise carries. An axios rejection has a
  \<^verbatim>\<open>response\<close> when the server answered (with a status outside 2xx) and none when
  the request never got an answer.
\<close>

datatype exn =
    TypeError string
  | ReferenceError string
  | RangeError string
  | Error string
  | AxiosError "axios_response option"

text \<open>\<^verbatim>\<open>Boolean(v)\<close>, \<^verbatim>\<open>!v\<close>, \<^verbatim>\<open>if (v)\<close>.\<close>

fun truthy :: "jsval \<Rightarrow> bool" where
  "truthy Undefined = False"
| "truthy Null = False"
| "truthy (Bool b) = b"
| "truthy (Num n) = (n \<noteq> 0)"
| "truthy (Str s) = (s \<noteq> [])"
| "truthy (Arr xs) = True"
| "truthy (Obj kvs) = True"

text \<open>\<^verbatim>\<open>a || b\<close> on values that are already computed.\<close>

definition js_or :: "jsval \<Rightarrow> jsval \<Rightarrow> jsval" where
  "js_or a b = (if truthy a then a else b)"

text \<open>
  \<^verbatim>\<open>a === b\<close>. Arrays and objects compare by reference; the program only ever compares a
  decoded value with a string constant or an environment variable, never an object with
  itself, so two compound values are unequal.
\<close>

fun strict_equals :: "jsval \<Rightarrow> jsval \<Rightarrow> bool" where
  "strict_equals Undefined Undefined = True"
| "strict_equals Null Null = True"
| "strict_equals (Bool a) (Bool b) = (a = b)"
| "strict_equals (Num a) (Num b) = (a = b)"
| "strict_equals (Str a) (Str b) = (a = b)"
| "strict_equals _ _ = False"

definition own_prop :: "(string \<times> jsval) list \<Rightarrow> string \<Rightarrow> jsval" where
  "own_prop kvs k = (case map_of kvs k of None \<Rightarrow> Undefined | Some v \<Rightarrow> v)"

text \<open>
  \<^verbatim>\<open>v.k\<close> for the property names the program reads (\<^verbatim>\<open>object\<close>, \<^verbatim>\<open>entry\<close>,
  \<^verbatim>\<open>messaging\<close>, \<^verbatim>\<open>standby\<close>, \<^verbatim>\<open>sender\<close>, \<^verbatim>\<open>message\<close>, \<^verbatim>\<open>text\<close>,
  \<^verbatim>\<open>id\<close>, \<^verbatim>\<open>data\<close>, \<^verbatim>\<open>paging\<close>, \<^verbatim>\<open>error\<close>, ...): none of them is an
  array index, \<^verbatim>\<open>length\<close> or a member of a built-in prototype, so reading one from an
  array, a string, a number or a boolean gives \<^verbatim>\<open>undefined\<close>. Reading a property of
  \<^verbatim>\<open>undefined\<close> or \<^verbatim>\<open>null\<close> raises a TypeError.
\<close>

fun get_prop :: "jsval \<Rightarrow> string \<Rightarrow> exn + jsval" where
  "get_prop Undefined k =
     Inl (TypeError (''Cannot read properties of undefined (reading ''
                       @ [CHR 0x27] @ k @ [CHR 0x27] @ '')''))"
| "get_prop Null k =
     Inl (TypeError (''Cannot read properties of null (reading ''
                       @ [CHR 0x27] @ k @ [CHR 0x27] @ '')''))"
| "get_prop (Obj kvs) k = Inr (own_prop kvs k)"
| "get_prop _ k = Inr Undefined"

text \<open>\<^verbatim>\<open>v?.k\<close>: \<^verbatim>\<open>undefined\<close> when \<^verbatim>\<open>v\<close> is \<^verbatim>\<open>undefined\<close> or \<^verbatim>\<open>null\<close>.\<close>

fun opt_get :: "jsval \<Rightarrow> string \<Rightarrow> jsval" where
  "opt_get (Obj kvs) k = own_prop kvs k"
| "opt_get _ k = Undefined"

text \<open>
  The values a \<^verbatim>\<open>for (const x of v)\<close> loop runs over: the elements of an array, the
  characters of a string; any other value is not iterable.
\<close>

fun iterate :: "jsval \<Rightarrow> exn + jsval list" where
  "iterate (Arr xs) = Inr xs"
| "iterate (Str s) = Inr (map (\<lambda>c. Str [c]) s)"
| "iterate _ = Inl (TypeError ''value is not iterable'')"

definition digit_char :: "nat \<Rightarrow> char" where
  "digit_char d = ''0123456789'' ! d"

fun show_nat :: "nat \<Rightarrow> string" where
  "show_nat n =
     (if n < 10 then [digit_char n] else show_nat (n div 10) @ [digit_char (n mod 10)])"

definition show_int :: "int \<Rightarrow> string" where
  "show_int i = (if i < 0 then CHR ''-'' # show_nat (nat (- i)) else show_nat (nat i))"

fun join_elems :: "(exn + string) list \<Rightarrow> exn + string" where
  "join_elems [] = Inr []"
| "join_elems [r] = r"
| "join_elems (r # rs) =
     (case r of
        Inl e \<Rightarrow> Inl e
      | Inr s \<Rightarrow> (case join_elems rs of Inl e \<Rightarrow> Inl e | Inr t \<Rightarrow> Inr (s @ '','' @ t)))"

text \<open>
  The conversion a template literal \<^verbatim>\<open>`${v}`\<close> applies. An array is joined with commas,
  \<^verbatim>\<open>null\<close> and \<^verbatim>\<open>undefined\<close> elements giving the empty string. A decoded JSON object
  prints as \<^verbatim>\<open>[object Object]\<close>, unless it has an own property \<^verbatim>\<open>toString\<close>: that
  property shadows \<^verbatim>\<open>Object.prototype.toString\<close> with a value that cannot be called,
  and the conversion raises a TypeError. A number prints in decimal, which is what
  JavaScript prints for an integer of magnitude below 10^21; larger magnitudes (exponent
  form) and fractions are outside the model.
\<close>

fun ToString :: "jsval \<Rightarrow> exn + string" where
  "ToString Undefined = Inr ''undefined''"
| "ToString Null = Inr ''null''"
| "ToString (Bool b) = Inr (if b then ''true'' else ''false'')"
| "ToString (Num n) = Inr (show_int n)"
| "ToString (Str s) = Inr s"
| "ToString (Arr xs) =
     join_elems
       (map (\<lambda>x. case x of Undefined \<Rightarrow> Inr [] | Null \<Rightarrow> Inr [] | _ \<Rightarrow> ToString x) xs)"
| "ToString (Obj kvs) =
     (if ''toString'' \<in> fst ` set kvs
      then Inl (TypeError ''Cannot convert object to primitive value'')
      else Inr ''[object Object]'')"

section \<open>Configuration and requests\<close>

text \<open>
  The three environment variables the handlers read (lines 15 to 17); each is a string or
  unset.
\<close>

record env =
  PAGE_ACCESS_TOKEN :: "string option"
  VERIFY_TOKEN :: "string option"
  APP_SECRET :: "string option"

definition env_value :: "string option \<Rightarrow> jsval" where
  "env_value v = (case v of None \<Rightarrow> Undefined | Some s \<Rightarrow> Str s)"

text \<open>
  A string-or-undefined value as text: the string itself, and \<^verbatim>\<open>undefined\<close> as a
  template literal prints it.
\<close>

definition text_of :: "string option \<Rightarrow> string" where
  "text_of v = (case v of None \<Rightarrow> ''undefined'' | Some s \<Rightarrow> s)"

text \<open>\<^verbatim>\<open>!v\<close> is false: the variable or header is set and not the empty string.\<close>

definition present :: "string option \<Rightarrow> bool" where
  "present v = (case v of None \<Rightarrow> False | Some s \<Rightarrow> s \<noteq> [])"

type_synonym byte = "8 word"

text \<open>
  What a handler reads of \<^verbatim>\<open>req\<close>: the headers (names in lower case), the parsed query
  string, the raw body that \<^verbatim>\<open>rawBodySaver\<close> stored (absent when the JSON parser read
  no body) and the parsed body.
\<close>

record request =
  headers :: "(string \<times> string) list"
  query :: "(string \<times> jsval) list"
  rawBody :: "byte list option"
  body :: jsval

text \<open>
  The call a handler makes on \<^verbatim>\<open>res\<close>: \<^verbatim>\<open>res.sendStatus(n)\<close>,
  \<^verbatim>\<open>res.status(n).send(v)\<close>, \<^verbatim>\<open>res.json(v)\<close> (status 200) or
  \<^verbatim>\<open>res.status(n).json(v)\<close>.
\<close>

datatype response =
    SendStatus nat
  | StatusSend nat jsval
  | Json jsval
  | StatusJson nat jsval

section \<open>Signature verifier\<close>

text \<open>\<^verbatim>\<open>Buffer.from(s)\<close>: the UTF-8 encoding of a string of code units below 256.\<close>

definition utf8_unit :: "char \<Rightarrow> byte list" where
  "utf8_unit c =
     (let n = (of_char c :: nat) in
      if n < 128 then [of_nat n] else [of_nat (192 + n div 64), of_nat (128 + n mod 64)])"

definition Buffer_from :: "string \<Rightarrow> byte list" where
  "Buffer_from s = concat (map utf8_unit s)"

text \<open>\<^verbatim>\<open>crypto.timingSafeEqual\<close> raises a RangeError on buffers of different lengths.\<close>

definition timingSafeEqual :: "byte list \<Rightarrow> byte list \<Rightarrow> exn + bool" where
  "timingSafeEqual a b =
     (if length a \<noteq> length b
      then Inl (RangeError ''Input buffers must have the same byte length'')
      else Inr (a = b))"

text \<open>
  The body of the \<^verbatim>\<open>try\<close> of \<^verbatim>\<open>verifyMetaSignature\<close> (lines 125 to 133). The
  parameter \<open>hmac\<close> is the library's
  \<^verbatim>\<open>crypto.createHmac('sha256', key).update(data).digest('hex')\<close>; \<^verbatim>\<open>update\<close> raises a
  TypeError when \<^verbatim>\<open>req.rawBody\<close> is undefined.
\<close>

definition verifyMetaSignature_try ::
  "(string \<Rightarrow> byte list \<Rightarrow> string) \<Rightarrow> env \<Rightarrow> request \<Rightarrow> exn + bool" where
  "verifyMetaSignature_try hmac cfg req =
     (let signature = map_of (headers req) ''x-hub-signature-256'' in
      if \<not> present signature \<or> \<not> present (APP_SECRET cfg) then Inr True
      else
        (case rawBody req of
           None \<Rightarrow> Inl (TypeError ''The data argument must be of type string or Buffer'')
         | Some buf \<Rightarrow>
             (let expected = ''sha256='' @ hmac (text_of (APP_SECRET cfg)) buf
              in timingSafeEqual (Buffer_from (text_of signature)) (Buffer_from expected))))"

text \<open>The \<^verbatim>\<open>catch (e) { return false; }\<close> around it (lines 134 to 136).\<close>

definition verifyMetaSignature ::
  "(string \<Rightarrow> byte list \<Rightarrow> string) \<Rightarrow> env \<Rightarrow> request \<Rightarrow> bool" where
  "verifyMetaSignature hmac cfg req =
     (case verifyMetaSignature_try hmac cfg req of Inl e \<Rightarrow> False | Inr b \<Rightarrow> b)"

section \<open>Effects\<close>

text \<open>The outbound HTTP requests: \<^verbatim>\<open>axios.get(url, {params})\<close> and
  \<^verbatim>\<open>axios.post(url, payload, {headers})\<close>.\<close>

datatype call =
    HttpGet string "(string \<times> jsval) list"
  | HttpPost string jsval "(string \<times> string) list"

datatype axios_result = Resolved axios_response | Rejected "axios_response option"

text \<open>
  The remote Graph API: its answer to a request, given the requests made before it.
\<close>

type_synonym network = "call list \<Rightarrow> call \<Rightarrow> axios_result"

datatype log_entry =
    Log_webhook_working
  | Log_request request
  | Log_incoming_webhook jsval
  | Log_reply_attempt jsval
  | Log_processing_error_data jsval
  | Log_processing_error exn

record state =
  calls :: "call list"
  console :: "log_entry list"

text \<open>
  A computation with effects: from the state before to the value it returns, or the
  exception it raises, and the state after.
\<close>

type_synonym 'a io = "state \<Rightarrow> (exn + 'a) \<times> state"

definition return_io :: "'a \<Rightarrow> 'a io" where
  "return_io x = (\<lambda>st. (Inr x, st))"

definition throw :: "exn \<Rightarrow> 'a io" where
  "throw e = (\<lambda>st. (Inl e, st))"

definition lift :: "exn + 'a \<Rightarrow> 'a io" where
  "lift r = (\<lambda>st. (r, st))"

definition bind_io :: "'a io \<Rightarrow> ('a \<Rightarrow> 'b io) \<Rightarrow> 'b io" where
  "bind_io m f =
     (\<lambda>st. case m st of (Inl e, st') \<Rightarrow> (Inl e, st') | (Inr x, st') \<Rightarrow> f x st')"

text \<open>\<^verbatim>\<open>try { m } catch (e) { h e }\<close>.\<close>

definition try_catch :: "'a io \<Rightarrow> (exn \<Rightarrow> 'a io) \<Rightarrow> 'a io" where
  "try_catch m h =
     (\<lambda>st. case m st of (Inl e, st') \<Rightarrow> h e st' | (Inr x, st') \<Rightarrow> (Inr x, st'))"

definition console_log :: "log_entry \<Rightarrow> unit io" where
  "console_log l = (\<lambda>st. (Inr (), st\<lparr>console := console st @ [l]\<rparr>))"

text \<open>\<^verbatim>\<open>await axios...\<close>: the request is recorded; a rejection is raised.\<close>

definition await_axios :: "network \<Rightarrow> call \<Rightarrow> axios_response io" where
  "await_axios net c =
     (\<lambda>st. (case net (calls st) c of
               Resolved r \<Rightarrow> Inr r
             | Rejected r \<Rightarrow> Inl (AxiosError r),
             st\<lparr>calls := calls st @ [c]\<rparr>))"

text \<open>\<^verbatim>\<open>error?.response?.data\<close> and \<^verbatim>\<open>error?.response?.status\<close> of a caught value.\<close>

fun exn_response_data :: "exn \<Rightarrow> jsval" where
  "exn_response_data (AxiosError (Some r)) = resp_data r"
| "exn_response_data _ = Undefined"

fun exn_response_status :: "exn \<Rightarrow> jsval" where
  "exn_response_status (AxiosError (Some r)) = Num (resp_status r)"
| "exn_response_status _ = Undefined"

text \<open>
  A computation whose result and outbound requests depend on the state only through the
  requests made so far, not through what was logged.
\<close>

definition reads_calls_only :: "'a io \<Rightarrow> bool" where
  "reads_calls_only m \<longleftrightarrow>
     (\<forall>st1 st2. calls st1 = calls st2 \<longrightarrow>
        fst (m st1) = fst (m st2) \<and> calls (snd (m st1)) = calls (snd (m st2)))"

section \<open>Webhook handshake (GET /webhook, lines 25 to 36)\<close>

definition webhook_get :: "env \<Rightarrow> request \<Rightarrow> response io" where
  "webhook_get cfg req =
     bind_io (console_log Log_webhook_working) (\<lambda>_.
       (let mode = own_prop (query req) ''hub.mode'';
            token = own_prop (query req) ''hub.verify_token'';
            challenge = own_prop (query req) ''hub.challenge''
        in if strict_equals mode (Str ''subscribe'')
               \<and> strict_equals token (env_value (VERIFY_TOKEN cfg))
           then return_io (StatusSend 200 challenge)
           else return_io (SendStatus 403)))"

section \<open>Graph API client\<close>

text \<open>The two URLs of \<^verbatim>\<open>getIGUserId\<close> (template literals, lines 48 and 54).\<close>

definition me_url :: "env \<Rightarrow> string" where
  "me_url cfg =
     ''https://graph.facebook.com/v21.0/me?fields=id&access_token=''
       @ text_of (PAGE_ACCESS_TOKEN cfg)"

definition page_url :: "env \<Rightarrow> string \<Rightarrow> string" where
  "page_url cfg page_id =
     ''https://graph.facebook.com/v21.0/'' @ page_id
       @ ''?fields=connected_instagram_account,instagram_business_account&access_token=''
       @ text_of (PAGE_ACCESS_TOKEN cfg)"

text \<open>The error thrown when neither field yields an id (lines 62 to 64).\<close>

definition resolution_failure :: exn where
  "resolution_failure =
     Error (''Could not resolve IG Business User ID. Ensure IG account is connected ''
              @ ''to the FB Page and permissions are granted.'')"

text \<open>\<^verbatim>\<open>getIGUserId\<close> (lines 40 to 67).\<close>

definition getIGUserId :: "env \<Rightarrow> network \<Rightarrow> jsval io" where
  "getIGUserId cfg net =
     bind_io (await_axios net (HttpGet (me_url cfg) [])) (\<lambda>me.
     bind_io (lift (get_prop (resp_data me) ''id'')) (\<lambda>PAGE_ID.
     bind_io (lift (ToString PAGE_ID)) (\<lambda>page_id.
     bind_io (await_axios net (HttpGet (page_url cfg page_id) [])) (\<lambda>pageResp.
       (let igUserId =
              js_or (opt_get (opt_get (resp_data pageResp) ''connected_instagram_account'') ''id'')
                    (opt_get (opt_get (resp_data pageResp) ''instagram_business_account'') ''id'')
        in if \<not> truthy igUserId then throw resolution_failure
           else return_io igUserId)))))"

text \<open>\<^verbatim>\<open>graphGet\<close> (lines 70 to 75).\<close>

definition graphGet :: "env \<Rightarrow> network \<Rightarrow> string \<Rightarrow> (string \<times> jsval) list \<Rightarrow> jsval io" where
  "graphGet cfg net url params =
     bind_io
       (await_axios net
          (HttpGet url (params @ [(''access_token'', env_value (PAGE_ACCESS_TOKEN cfg))])))
       (\<lambda>resp. return_io (resp_data resp))"

text \<open>
  The request of \<^verbatim>\<open>tryReplyInstagram\<close> (lines 185 to 194): \<^verbatim>\<open>url\<close>, \<^verbatim>\<open>payload\<close> and
  the Authorization header.
\<close>

definition payload :: "jsval \<Rightarrow> string \<Rightarrow> jsval" where
  "payload igPsid text =
     Obj [(''messaging_product'', Str ''instagram''),
          (''recipient'', Obj [(''id'', igPsid)]),
          (''message'', Obj [(''text'', Str text)])]"

definition send_call :: "env \<Rightarrow> jsval \<Rightarrow> string \<Rightarrow> call" where
  "send_call cfg igPsid text =
     HttpPost ''https://graph.facebook.com/v21.0/me/messages'' (payload igPsid text)
       [(''Authorization'', ''Bearer '' @ text_of (PAGE_ACCESS_TOKEN cfg))]"

text \<open>\<^verbatim>\<open>tryReplyInstagram\<close> (lines 183 to 219).\<close>

definition tryReplyInstagram :: "env \<Rightarrow> network \<Rightarrow> jsval \<Rightarrow> string \<Rightarrow> jsval io" where
  "tryReplyInstagram cfg net igPsid text =
     try_catch
       (bind_io (await_axios net (send_call cfg igPsid text))
          (\<lambda>resp. return_io (Obj [(''ok'', Bool True), (''data'', resp_data resp)])))
       (\<lambda>error.
          (let errData = js_or (exn_response_data error) (Obj [])
           in return_io
                (Obj [(''ok'', Bool False),
                      (''error'',
                       Obj [(''status'', exn_response_status error),
                            (''code'', opt_get (opt_get errData ''error'') ''code''),
                            (''subcode'', opt_get (opt_get errData ''error'') ''error_subcode''),
                            (''message'', opt_get (opt_get errData ''error'') ''message''),
                            (''type'', opt_get (opt_get errData ''error'') ''type'')])])))"

section \<open>Conversation lister (GET /ig/conversations, lines 85 to 117)\<close>

text \<open>
  The query parameters \<^verbatim>\<open>params\<close> (lines 88 to 92), the URL (line 97), the body of the
  \<^verbatim>\<open>try\<close> (lines 87 to 110), then the handler. Its \<^verbatim>\<open>catch\<close> block
  (lines 111 to 116) evaluates \<^verbatim>\<open>res.status(400)\<close>
  and then the argument of \<^verbatim>\<open>.json(...)\<close>, which calls \<^verbatim>\<open>stringifyGraphError(err)\<close>.
  The module declares and imports no binding of that name: its bindings are \<^verbatim>\<open>express\<close>,
  \<^verbatim>\<open>axios\<close>, \<^verbatim>\<open>crypto\<close>, \<^verbatim>\<open>dotenv\<close>, \<^verbatim>\<open>app\<close>, \<^verbatim>\<open>rawBodySaver\<close>, the four
  constants read from the environment, \<^verbatim>\<open>getIGUserId\<close>, \<^verbatim>\<open>graphGet\<close>,
  \<^verbatim>\<open>verifyMetaSignature\<close> and \<^verbatim>\<open>tryReplyInstagram\<close>. So the call raises a
  ReferenceError before \<^verbatim>\<open>.json\<close> is entered: the handler sends no response and its
  promise rejects.
\<close>

definition params :: "request \<Rightarrow> (string \<times> jsval) list" where
  "params req =
     (let limit = (case own_prop (query req) ''limit'' of Undefined \<Rightarrow> Num 25 | v \<Rightarrow> v);
          before = own_prop (query req) ''before'';
          after = own_prop (query req) ''after''
      in [(''limit'', limit)]
           @ (if truthy before then [(''before'', before)] else [])
           @ (if truthy after then [(''after'', after)] else []))"

definition conversations_url :: "string \<Rightarrow> string" where
  "conversations_url ig_id = ''https://graph.facebook.com/v21.0/'' @ ig_id @ ''/conversations''"

definition ig_conversations_try :: "env \<Rightarrow> network \<Rightarrow> request \<Rightarrow> response io" where
  "ig_conversations_try cfg net req =
     bind_io (getIGUserId cfg net) (\<lambda>igUserId.
     bind_io (lift (ToString igUserId)) (\<lambda>ig_id.
     bind_io
       (graphGet cfg net (conversations_url ig_id)
          (params req @
             [(''fields'', Str ''id,updated_time,participants.limit(50){id,username},link'')]))
       (\<lambda>data.
     bind_io (lift (get_prop data ''data'')) (\<lambda>d.
     bind_io (lift (get_prop data ''paging'')) (\<lambda>p.
       return_io
         (Json (Obj [(''success'', Bool True),
                     (''data'', js_or d (Arr [])),
                     (''paging'', js_or p Null)])))))))"

definition ig_conversations :: "env \<Rightarrow> network \<Rightarrow> request \<Rightarrow> response io" where
  "ig_conversations cfg net req =
     try_catch (ig_conversations_try cfg net req)
       (\<lambda>err. throw (ReferenceError ''stringifyGraphError is not defined''))"

section \<open>Webhook receiver (POST /webhook, lines 140 to 180)\<close>

text \<open>The template literal \<^verbatim>\<open>replyText\<close> (lines 165 to 167), given the converted text.\<close>

definition replyText :: "string \<Rightarrow> string" where
  "replyText said = ''Thanks for messaging us! You said: '' @ [CHR 0x22] @ said @ [CHR 0x22]"

text \<open>The body of the inner loop (lines 158 to 171).\<close>

definition handle_event :: "env \<Rightarrow> network \<Rightarrow> jsval \<Rightarrow> unit io" where
  "handle_event cfg net event =
     (let senderId = opt_get (opt_get event ''sender'') ''id'';
          messageText = opt_get (opt_get event ''message'') ''text'';
          isMessage = truthy (opt_get event ''message'')
      in if isMessage \<and> truthy senderId
         then
           bind_io (lift (ToString (js_or messageText (Str ''(no text)'')))) (\<lambda>said.
           bind_io (tryReplyInstagram cfg net senderId (replyText said)) (\<lambda>result.
             console_log (Log_reply_attempt result)))
         else return_io ())"

fun for_events :: "env \<Rightarrow> network \<Rightarrow> jsval list \<Rightarrow> unit io" where
  "for_events cfg net [] = return_io ()"
| "for_events cfg net (event # rest) =
     bind_io (handle_event cfg net event) (\<lambda>_. for_events cfg net rest)"

text \<open>\<^verbatim>\<open>entry.messaging || entry.standby || []\<close> (line 156).\<close>

definition changes :: "jsval \<Rightarrow> exn + jsval" where
  "changes entry =
     (case get_prop entry ''messaging'' of
        Inl e \<Rightarrow> Inl e
      | Inr messaging \<Rightarrow>
          if truthy messaging then Inr messaging
          else (case get_prop entry ''standby'' of
                  Inl e \<Rightarrow> Inl e
                | Inr standby \<Rightarrow> Inr (js_or standby (Arr []))))"

definition handle_entry :: "env \<Rightarrow> network \<Rightarrow> jsval \<Rightarrow> unit io" where
  "handle_entry cfg net entry =
     bind_io (lift (changes entry)) (\<lambda>chs.
     bind_io (lift (iterate chs)) (\<lambda>events.
       for_events cfg net events))"

fun for_entries :: "env \<Rightarrow> network \<Rightarrow> jsval list \<Rightarrow> unit io" where
  "for_entries cfg net [] = return_io ()"
| "for_entries cfg net (entry # rest) =
     bind_io (handle_entry cfg net entry) (\<lambda>_. for_entries cfg net rest)"

text \<open>The body of the \<^verbatim>\<open>try\<close> (lines 154 to 174).\<close>

definition process_body :: "env \<Rightarrow> network \<Rightarrow> jsval \<Rightarrow> unit io" where
  "process_body cfg net b =
     bind_io (lift (get_prop b ''entry'')) (\<lambda>entry.
       if truthy entry
       then bind_io (lift (iterate entry)) (\<lambda>entries. for_entries cfg net entries)
       else return_io ())"

text \<open>The \<^verbatim>\<open>catch\<close> of the handler (lines 175 to 177): it logs
  \<^verbatim>\<open>err?.response?.data || err\<close>.\<close>

definition log_processing_error :: "exn \<Rightarrow> unit io" where
  "log_processing_error err =
     (if truthy (exn_response_data err)
      then console_log (Log_processing_error_data (exn_response_data err))
      else console_log (Log_processing_error err))"

text \<open>
  The handler. The comparison \<^verbatim>\<open>body.object !== 'instagram'\<close> (line 149) guards an empty
  block; it is evaluated before the \<^verbatim>\<open>try\<close> begins.
\<close>

definition webhook_post ::
  "(string \<Rightarrow> byte list \<Rightarrow> string) \<Rightarrow> env \<Rightarrow> network \<Rightarrow> request \<Rightarrow> response io" where
  "webhook_post hmac cfg net req =
     bind_io (console_log (Log_request req)) (\<lambda>_.
       if \<not> verifyMetaSignature hmac cfg req then return_io (SendStatus 403)
       else
         bind_io (console_log (Log_incoming_webhook (body req))) (\<lambda>_.
         bind_io (lift (get_prop (body req) ''object'')) (\<lambda>object.
         bind_io (if \<not> strict_equals object (Str ''instagram'') then return_io () else return_io ())
           (\<lambda>_.
         bind_io (try_catch (process_body cfg net (body req)) log_processing_error) (\<lambda>_.
           return_io (SendStatus 200))))))"

section \<open>Sample inputs\<close>

text \<open>
  A stand-in for the HMAC of the crypto library (the theorems hold for every function in
  its place), a configuration, and requests with and without a signature header.
\<close>

definition sample_digest :: "string \<Rightarrow> byte list \<Rightarrow> string" where
  "sample_digest key data =
     (if even (length key + length data) then ''5d41402abc4b2a76'' else ''7d793037a0760186'')"

definition sample_env :: env where
  "sample_env =
     \<lparr>PAGE_ACCESS_TOKEN = Some ''page-token'', VERIFY_TOKEN = Some ''my-verify-token'',
      APP_SECRET = Some ''app-secret''\<rparr>"

definition unsigned_request :: request where
  "unsigned_request = \<lparr>headers = [], query = [], rawBody = Some [0x7B, 0x7D], body = Obj []\<rparr>"

definition signed_request :: request where
  "signed_request =
     \<lparr>headers = [(''x-hub-signature-256'', ''sha256=5d41402abc4b2a76'')], query = [],
      rawBody = Some [0x7B, 0x7D], body = Obj []\<rparr>"

definition tampered_request :: request where
  "tampered_request =
     \<lparr>headers = [(''x-hub-signature-256'', ''sha256=deadbeef'')], query = [],
      rawBody = Some [0x7B, 0x7D], body = Obj []\<rparr>"

definition empty_signature_request :: request where
  "empty_signature_request =
     \<lparr>headers = [(''x-hub-signature-256'', [])], query = [],
      rawBody = Some [0x7B, 0x7D], body = Obj []\<rparr>"

definition bodyless_request :: request where
  "bodyless_request = \<lparr>headers = [], query = [], rawBody = None, body = Undefined\<rparr>"

definition initial_state :: state where
  "initial_state = \<lparr>calls = [], console = []\<rparr>"

definition handshake_request :: request where
  "handshake_request =
     \<lparr>headers = [],
      query = [(''hub.mode'', Str ''subscribe''), (''hub.verify_token'', Str ''my-verify-token''),
               (''hub.challenge'', Str ''xyz123'')],
      rawBody = None, body = Undefined\<rparr>"

definition bad_handshake_request :: request where
  "bad_handshake_request =
     \<lparr>headers = [],
      query = [(''hub.mode'', Str ''subscribe''), (''hub.verify_token'', Str ''guess''),
               (''hub.challenge'', Str ''xyz123'')],
      rawBody = None, body = Undefined\<rparr>"

definition network_ok :: network where
  "network_ok history c =
     Resolved \<lparr>resp_status = 200,
               resp_data = Obj [(''recipient_id'', Str ''U1''), (''message_id'', Str ''m-1'')]\<rparr>"

definition network_down :: network where
  "network_down history c = Rejected None"

definition network_denied :: network where
  "network_denied history c =
     Rejected (Some \<lparr>resp_status = 400,
                     resp_data =
                       Obj [(''error'',
                             Obj [(''message'', Str ''outside the allowed window''),
                                  (''type'', Str ''OAuthException''),
                                  (''code'', Num 10),
                                  (''error_subcode'', Num 2018278)])]\<rparr>)"


definition network_unlinked :: network where
  "network_unlinked history c =
     Resolved \<lparr>resp_status = 200, resp_data = Obj [(''id'', Str ''1001'')]\<rparr>"

definition hi_event :: jsval where
  "hi_event = Obj [(''sender'', Obj [(''id'', Str ''U1'')]), (''message'', Obj [(''text'', Str ''hi'')])]"

definition example_request :: request where
  "example_request =
     \<lparr>headers = [], query = [], rawBody = Some [0x7B, 0x7D],
      body = Obj [(''entry'', Arr [Obj [(''messaging'', Arr [hi_event])]])]\<rparr>"


definition messaging_event_request :: request where
  "messaging_event_request =
     \<lparr>headers = [], query = [], rawBody = Some [0x7B, 0x7D],
      body = Obj [(''object'', Str ''page''),
                  (''entry'', Arr [Obj [(''messaging'', Arr [hi_event])]])]\<rparr>"

definition malformed_request :: request where
  "malformed_request =
     \<lparr>headers = [], query = [], rawBody = Some [0x7B, 0x7D],
      body = Obj [(''entry'', Arr [Obj [(''messaging'', Arr [hi_event])], Null])]\<rparr>"

section \<open>The signature verifier: proofs\<close>

lemma of_nat_byte_inj: "a < 256 \<Longrightarrow> b < 256 \<Longrightarrow> (of_nat a :: byte) = of_nat b \<Longrightarrow> a = b"
  by (simp add: word_of_nat_eq_iff take_bit_eq_mod)

lemma of_char_lt_256: "(of_char c :: nat) < 256"
  by (cases c) (simp add: of_char_def)

lemma present_Some [simp]: "present (Some s) = (s \<noteq> [])"
  by (simp add: present_def)

lemma present_None [simp]: "\<not> present None"
  by (simp add: present_def)

lemma text_of_Some [simp]: "text_of (Some s) = s"
  by (simp add: text_of_def)

lemma utf8_unit_low: "(of_char c :: nat) < 128 \<Longrightarrow> utf8_unit c = [of_nat (of_char c)]"
  by (simp only: utf8_unit_def Let_def if_True)

lemma utf8_unit_high:
  "\<not> (of_char c :: nat) < 128 \<Longrightarrow>
     utf8_unit c = [of_nat (192 + of_char c div 64), of_nat (128 + of_char c mod 64)]"
  by (simp only: utf8_unit_def Let_def if_False)

lemma utf8_unit_not_Nil: "utf8_unit c \<noteq> []"
  by (cases "(of_char c :: nat) < 128")
     (simp_all only: utf8_unit_low utf8_unit_high list.distinct not_False_eq_True)

lemma utf8_unit_inj:
  assumes "utf8_unit c @ xs = utf8_unit d @ ys"
  shows "c = d \<and> xs = ys"
proof -
  define n where "n = (of_char c :: nat)"
  define m where "m = (of_char d :: nat)"
  have n: "n < 256" and m: "m < 256"
    unfolding n_def m_def by (rule of_char_lt_256)+
  have "n = m \<and> xs = ys"
  proof (cases "n < 128")
    case True
    note nlt = this
    then have uc: "utf8_unit c = [of_nat n]"
      unfolding n_def by (rule utf8_unit_low)
    show ?thesis
    proof (cases "m < 128")
      case True
      then have "utf8_unit d = [of_nat m]"
        unfolding m_def by (rule utf8_unit_low)
      with uc assms have "(of_nat n :: byte) = of_nat m" "xs = ys"
        by simp_all
      with n m show ?thesis by (auto dest: of_nat_byte_inj)
    next
      case False
      then have "utf8_unit d = [of_nat (192 + m div 64), of_nat (128 + m mod 64)]"
        unfolding m_def by (rule utf8_unit_high)
      with uc assms have "(of_nat n :: byte) = of_nat (192 + m div 64)"
        by (simp del: of_nat_add)
      moreover have "192 + m div 64 < 256" using m by simp
      ultimately have "n = 192 + m div 64" using n by (blast dest: of_nat_byte_inj)
      with nlt show ?thesis by simp
    qed
  next
    case False
    note nge = this
    then have uc: "utf8_unit c = [of_nat (192 + n div 64), of_nat (128 + n mod 64)]"
      unfolding n_def by (rule utf8_unit_high)
    show ?thesis
    proof (cases "m < 128")
      case True
      then have "utf8_unit d = [of_nat m]"
        unfolding m_def by (rule utf8_unit_low)
      with uc assms have "(of_nat (192 + n div 64) :: byte) = of_nat m"
        by (simp del: of_nat_add)
      moreover have "192 + n div 64 < 256" using n by simp
      ultimately have "192 + n div 64 = m" using m by (blast dest: of_nat_byte_inj)
      with True show ?thesis by simp
    next
      case False
      then have "utf8_unit d = [of_nat (192 + m div 64), of_nat (128 + m mod 64)]"
        unfolding m_def by (rule utf8_unit_high)
      with uc assms have hi: "(of_nat (192 + n div 64) :: byte) = of_nat (192 + m div 64)"
        and lo: "(of_nat (128 + n mod 64) :: byte) = of_nat (128 + m mod 64)"
        and r: "xs = ys"
        by (simp_all del: of_nat_add)
      have "192 + n div 64 < 256" "192 + m div 64 < 256" using n m by simp_all
      with hi have "192 + n div 64 = 192 + m div 64" by (blast dest: of_nat_byte_inj)
      then have d: "n div 64 = m div 64" by simp
      have "128 + n mod 64 < 256" "128 + m mod 64 < 256" by simp_all
      with lo have "128 + n mod 64 = 128 + m mod 64" by (blast dest: of_nat_byte_inj)
      then have "n mod 64 = m mod 64" by simp
      with d have "n = m" by (metis div_mult_mod_eq)
      with r show ?thesis by simp
    qed
  qed
  then show ?thesis
    unfolding n_def m_def by simp
qed

lemma Buffer_from_Cons: "Buffer_from (c # s) = utf8_unit c @ Buffer_from s"
  by (simp add: Buffer_from_def)

lemma Buffer_from_inj: "Buffer_from s = Buffer_from t \<Longrightarrow> s = t"
proof (induction s arbitrary: t)
  case Nil
  then show ?case
    by (cases t) (simp_all add: Buffer_from_def utf8_unit_not_Nil)
next
  case (Cons c s)
  show ?case
  proof (cases t)
    case Nil
    with Cons.prems show ?thesis
      by (simp add: Buffer_from_def utf8_unit_not_Nil)
  next
    case (Cons d t')
    with Cons.prems have "utf8_unit c @ Buffer_from s = utf8_unit d @ Buffer_from t'"
      by (simp only: Buffer_from_Cons)
    then have "c = d \<and> Buffer_from s = Buffer_from t'" by (rule utf8_unit_inj)
    with Cons.IH Cons show ?thesis by simp
  qed
qed

lemma timingSafeEqual_Buffer_from:
  "timingSafeEqual (Buffer_from s) (Buffer_from t) = Inr True \<longleftrightarrow> s = t"
  by (auto simp: timingSafeEqual_def dest: Buffer_from_inj)

text \<open>
  Claim C4. \<^verbatim>\<open>verifyMetaSignature\<close> returns true whenever the secret is absent or the
  signature header is absent (absent as the code tests it with \<^verbatim>\<open>!\<close>: unset or the
  empty string). And for every secret \<open>S\<close> and raw body \<open>B\<close> it returns true on the header
  \<^verbatim>\<open>'sha256=' + hex(HMAC-SHA256(S, B))\<close>.
\<close>

theorem verifyMetaSignature_lenient_and_accepts_valid:
  "(\<not> present (APP_SECRET cfg) \<or> \<not> present (map_of (headers req) ''x-hub-signature-256'')
      \<longrightarrow> verifyMetaSignature hmac cfg req)
   \<and> (APP_SECRET cfg = Some S \<and> rawBody req = Some B
        \<and> map_of (headers req) ''x-hub-signature-256'' = Some (''sha256='' @ hmac S B)
      \<longrightarrow> verifyMetaSignature hmac cfg req)"
proof (intro conjI impI)
  assume "\<not> present (APP_SECRET cfg) \<or> \<not> present (map_of (headers req) ''x-hub-signature-256'')"
  then show "verifyMetaSignature hmac cfg req"
    by (auto simp: verifyMetaSignature_def verifyMetaSignature_try_def)
next
  assume h: "APP_SECRET cfg = Some S \<and> rawBody req = Some B
        \<and> map_of (headers req) ''x-hub-signature-256'' = Some (''sha256='' @ hmac S B)"
  then show "verifyMetaSignature hmac cfg req"
    by (simp add: verifyMetaSignature_def verifyMetaSignature_try_def timingSafeEqual_def)
qed

theorem verifyMetaSignature_lenient_and_accepts_valid_witness:
  "\<not> present (map_of (headers unsigned_request) ''x-hub-signature-256'')
   \<and> verifyMetaSignature sample_digest sample_env unsigned_request
   \<and> APP_SECRET sample_env = Some ''app-secret''
   \<and> rawBody signed_request = Some [0x7B, 0x7D]
   \<and> map_of (headers signed_request) ''x-hub-signature-256''
        = Some (''sha256='' @ sample_digest ''app-secret'' [0x7B, 0x7D])
   \<and> verifyMetaSignature sample_digest sample_env signed_request"
proof -
  have a: "\<not> present (map_of (headers unsigned_request) ''x-hub-signature-256'')"
    by (simp add: unsigned_request_def)
  have b: "APP_SECRET sample_env = Some ''app-secret''"
    by (simp add: sample_env_def)
  have c: "rawBody signed_request = Some [0x7B, 0x7D]"
    by (simp add: signed_request_def)
  have d: "map_of (headers signed_request) ''x-hub-signature-256''
        = Some (''sha256='' @ sample_digest ''app-secret'' [0x7B, 0x7D])"
    by (simp add: signed_request_def sample_digest_def)
  from a verifyMetaSignature_lenient_and_accepts_valid
         [of sample_env unsigned_request sample_digest]
  have e: "verifyMetaSignature sample_digest sample_env unsigned_request"
    by blast
  from b c d verifyMetaSignature_lenient_and_accepts_valid
         [of sample_env signed_request sample_digest "''app-secret''" "[0x7B, 0x7D]"]
  have f: "verifyMetaSignature sample_digest sample_env signed_request"
    by blast
  from a b c d e f show ?thesis by blast
qed

text \<open>
  Claim C5, amended. With a secret configured and a signature header that is a non-empty
  string, the verifier returns true only on the header
  \<^verbatim>\<open>'sha256=' + hex(HMAC-SHA256(secret, rawBody))\<close>: every other non-empty header string
  is rejected, whatever its byte length or encoding. Whenever the comparison raises
  (buffers of different lengths, no raw body) the result is false. The empty header
  string is treated as an absent header (line 126) and accepted.
\<close>

theorem verifyMetaSignature_rejects_every_other_header:
  assumes "APP_SECRET cfg = Some S" and "S \<noteq> []"
    and "map_of (headers req) ''x-hub-signature-256'' = Some h"
  shows "(h \<noteq> [] \<longrightarrow>
            (verifyMetaSignature hmac cfg req
               \<longleftrightarrow> (\<exists>B. rawBody req = Some B \<and> h = ''sha256='' @ hmac S B)))
         \<and> (h = [] \<longrightarrow> verifyMetaSignature hmac cfg req)
         \<and> (\<forall>e. verifyMetaSignature_try hmac cfg req = Inl e
                \<longrightarrow> \<not> verifyMetaSignature hmac cfg req)"
proof (intro conjI impI allI)
  assume h: "h \<noteq> []"
  show "verifyMetaSignature hmac cfg req
          \<longleftrightarrow> (\<exists>B. rawBody req = Some B \<and> h = ''sha256='' @ hmac S B)"
  proof (cases "rawBody req")
    case None
    with assms h show ?thesis
      by (simp add: verifyMetaSignature_def verifyMetaSignature_try_def)
  next
    case (Some B)
    with assms h have t: "verifyMetaSignature_try hmac cfg req
        = timingSafeEqual (Buffer_from h) (Buffer_from (''sha256='' @ hmac S B))"
      by (simp add: verifyMetaSignature_try_def)
    have "verifyMetaSignature hmac cfg req \<longleftrightarrow> h = ''sha256='' @ hmac S B"
    proof
      assume "verifyMetaSignature hmac cfg req"
      with t have "timingSafeEqual (Buffer_from h) (Buffer_from (''sha256='' @ hmac S B))
                     = Inr True"
        by (simp add: verifyMetaSignature_def split: sum.splits)
      then show "h = ''sha256='' @ hmac S B"
        by (simp only: timingSafeEqual_Buffer_from)
    next
      assume "h = ''sha256='' @ hmac S B"
      with t show "verifyMetaSignature hmac cfg req"
        by (simp add: verifyMetaSignature_def timingSafeEqual_def)
    qed
    with Some show ?thesis by simp
  qed
next
  assume "h = []"
  with assms show "verifyMetaSignature hmac cfg req"
    by (simp add: verifyMetaSignature_def verifyMetaSignature_try_def)
next
  fix e
  assume "verifyMetaSignature_try hmac cfg req = Inl e"
  then show "\<not> verifyMetaSignature hmac cfg req"
    by (simp add: verifyMetaSignature_def)
qed

theorem verifyMetaSignature_rejects_every_other_header_witness:
  "APP_SECRET sample_env = Some ''app-secret'' \<and> ''app-secret'' \<noteq> []
   \<and> map_of (headers tampered_request) ''x-hub-signature-256'' = Some ''sha256=deadbeef''
   \<and> ''sha256=deadbeef'' \<noteq> []
   \<and> verifyMetaSignature_try sample_digest sample_env tampered_request
        = Inl (RangeError ''Input buffers must have the same byte length'')
   \<and> \<not> verifyMetaSignature sample_digest sample_env tampered_request
   \<and> map_of (headers empty_signature_request) ''x-hub-signature-256'' = Some []
   \<and> verifyMetaSignature sample_digest sample_env empty_signature_request"
proof -
  have a: "APP_SECRET sample_env = Some ''app-secret''"
    by (simp add: sample_env_def)
  have b: "map_of (headers tampered_request) ''x-hub-signature-256'' = Some ''sha256=deadbeef''"
    by (simp add: tampered_request_def)
  have c: "verifyMetaSignature_try sample_digest sample_env tampered_request
        = Inl (RangeError ''Input buffers must have the same byte length'')"
    by (simp add: verifyMetaSignature_try_def tampered_request_def sample_env_def
        sample_digest_def timingSafeEqual_def Buffer_from_def utf8_unit_def)
  have s: "''app-secret'' \<noteq> []" and h: "''sha256=deadbeef'' \<noteq> []"
    by simp_all
  from verifyMetaSignature_rejects_every_other_header [OF a s b, of sample_digest] c
  have d: "\<not> verifyMetaSignature sample_digest sample_env tampered_request"
    by blast
  have b': "map_of (headers empty_signature_request) ''x-hub-signature-256'' = Some []"
    by (simp add: empty_signature_request_def)
  from verifyMetaSignature_rejects_every_other_header [OF a s b', of sample_digest]
  have d': "verifyMetaSignature sample_digest sample_env empty_signature_request"
    by blast
  from a s b h c d b' d' show ?thesis by blast
qed

text \<open>
  Claim C5 as stated fails: with the secret configured, the empty header string differs
  from the expected signature of the body, and the verifier accepts it.
\<close>

theorem empty_signature_header_accepted_counterexample:
  "APP_SECRET sample_env = Some ''app-secret''
   \<and> map_of (headers empty_signature_request) ''x-hub-signature-256'' = Some []
   \<and> rawBody empty_signature_request = Some [0x7B, 0x7D]
   \<and> [] \<noteq> ''sha256='' @ sample_digest ''app-secret'' [0x7B, 0x7D]
   \<and> verifyMetaSignature sample_digest sample_env empty_signature_request"
  by (simp add: verifyMetaSignature_def verifyMetaSignature_try_def
      empty_signature_request_def sample_env_def)

section \<open>Effects and values: proof rules\<close>

lemmas io_defs = return_io_def throw_def lift_def console_log_def bind_io_def try_catch_def

lemma strict_equals_Str [simp]: "strict_equals v (Str s) \<longleftrightarrow> v = Str s"
  by (cases v) auto

lemma strict_equals_Undefined [simp]: "strict_equals v Undefined \<longleftrightarrow> v = Undefined"
  by (cases v) auto

lemma strict_equals_env_value: "strict_equals v (env_value x) \<longleftrightarrow> v = env_value x"
  by (cases x) (simp_all add: env_value_def)

section \<open>The handshake: proofs\<close>

text \<open>
  Claim C6. For every handshake request: if \<^verbatim>\<open>hub.mode\<close> is the string
  \<^verbatim>\<open>subscribe\<close> and \<^verbatim>\<open>hub.verify_token\<close> equals the configured \<^verbatim>\<open>VERIFY_TOKEN\<close>,
  the handler answers 200 with the \<^verbatim>\<open>hub.challenge\<close> value itself as the body; in every
  other case it answers 403. It makes no outbound request.
\<close>

theorem webhook_get_handshake:
  "(own_prop (query req) ''hub.mode'' = Str ''subscribe''
      \<and> own_prop (query req) ''hub.verify_token'' = env_value (VERIFY_TOKEN cfg)
    \<longrightarrow> fst (webhook_get cfg req st) = Inr (StatusSend 200 (own_prop (query req) ''hub.challenge'')))
   \<and> (\<not> (own_prop (query req) ''hub.mode'' = Str ''subscribe''
          \<and> own_prop (query req) ''hub.verify_token'' = env_value (VERIFY_TOKEN cfg))
    \<longrightarrow> fst (webhook_get cfg req st) = Inr (SendStatus 403))
   \<and> calls (snd (webhook_get cfg req st)) = calls st"
  by (simp add: webhook_get_def io_defs strict_equals_env_value Let_def)

theorem webhook_get_handshake_witness:
  "own_prop (query handshake_request) ''hub.mode'' = Str ''subscribe''
   \<and> own_prop (query handshake_request) ''hub.verify_token'' = env_value (VERIFY_TOKEN sample_env)
   \<and> fst (webhook_get sample_env handshake_request initial_state) = Inr (StatusSend 200 (Str ''xyz123''))
   \<and> own_prop (query bad_handshake_request) ''hub.verify_token'' \<noteq> env_value (VERIFY_TOKEN sample_env)
   \<and> fst (webhook_get sample_env bad_handshake_request initial_state) = Inr (SendStatus 403)"
proof -
  have a: "own_prop (query handshake_request) ''hub.mode'' = Str ''subscribe''"
    and b: "own_prop (query handshake_request) ''hub.verify_token''
              = env_value (VERIFY_TOKEN sample_env)"
    and c: "own_prop (query handshake_request) ''hub.challenge'' = Str ''xyz123''"
    by (simp_all add: handshake_request_def own_prop_def sample_env_def env_value_def)
  have d: "own_prop (query bad_handshake_request) ''hub.verify_token''
              \<noteq> env_value (VERIFY_TOKEN sample_env)"
    by (simp add: bad_handshake_request_def own_prop_def sample_env_def env_value_def)
  from a b c webhook_get_handshake [of handshake_request sample_env initial_state]
  have e: "fst (webhook_get sample_env handshake_request initial_state)
             = Inr (StatusSend 200 (Str ''xyz123''))"
    by simp
  from d webhook_get_handshake [of bad_handshake_request sample_env initial_state]
  have f: "fst (webhook_get sample_env bad_handshake_request initial_state) = Inr (SendStatus 403)"
    by blast
  from a b d e f show ?thesis by blast
qed

section \<open>The Graph API client: proofs\<close>

lemma await_axios_apply:
  "await_axios net c st =
     (case net (calls st) c of Resolved r \<Rightarrow> Inr r | Rejected r \<Rightarrow> Inl (AxiosError r),
      st\<lparr>calls := calls st @ [c]\<rparr>)"
  by (simp add: await_axios_def)

lemma tryReplyInstagram_Resolved:
  "net (calls st) (send_call cfg igPsid msg) = Resolved resp \<Longrightarrow>
     tryReplyInstagram cfg net igPsid msg st =
       (Inr (Obj [(''ok'', Bool True), (''data'', resp_data resp)]),
        st\<lparr>calls := calls st @ [send_call cfg igPsid msg]\<rparr>)"
  by (simp add: tryReplyInstagram_def io_defs await_axios_apply)

lemma tryReplyInstagram_Rejected:
  "net (calls st) (send_call cfg igPsid msg) = Rejected r \<Longrightarrow>
     tryReplyInstagram cfg net igPsid msg st =
       (Inr (Obj [(''ok'', Bool False),
                  (''error'',
                   Obj [(''status'', exn_response_status (AxiosError r)),
                        (''code'', opt_get (opt_get (js_or (exn_response_data (AxiosError r)) (Obj [])) ''error'') ''code''),
                        (''subcode'', opt_get (opt_get (js_or (exn_response_data (AxiosError r)) (Obj [])) ''error'') ''error_subcode''),
                        (''message'', opt_get (opt_get (js_or (exn_response_data (AxiosError r)) (Obj [])) ''error'') ''message''),
                        (''type'', opt_get (opt_get (js_or (exn_response_data (AxiosError r)) (Obj [])) ''error'') ''type'')])]),
        st\<lparr>calls := calls st @ [send_call cfg igPsid msg]\<rparr>)"
  by (simp add: tryReplyInstagram_def io_defs await_axios_apply Let_def)

lemma tryReplyInstagram_returns:
  "\<exists>r. tryReplyInstagram cfg net igPsid msg st
         = (Inr r, st\<lparr>calls := calls st @ [send_call cfg igPsid msg]\<rparr>)"
proof (cases "net (calls st) (send_call cfg igPsid msg)")
  case (Resolved resp)
  then show ?thesis by (simp add: tryReplyInstagram_Resolved)
next
  case (Rejected r)
  then show ?thesis by (simp add: tryReplyInstagram_Rejected)
qed

text \<open>
  Claim C8. \<^verbatim>\<open>tryReplyInstagram\<close> never throws: for every recipient and text it returns
  a value. When the request resolves, the value is \<^verbatim>\<open>{ok: true, data}\<close> with the remote
  payload. When the request is rejected, it is \<^verbatim>\<open>{ok: false, error}\<close>, where
  \<^verbatim>\<open>error\<close> has the fields \<^verbatim>\<open>status\<close>, \<^verbatim>\<open>code\<close>, \<^verbatim>\<open>subcode\<close>,
  \<^verbatim>\<open>message\<close> and \<^verbatim>\<open>type\<close>, read from the response when there is one and
  \<^verbatim>\<open>undefined\<close> when there is none.
\<close>

theorem tryReplyInstagram_never_throws:
  "(\<exists>r. fst (tryReplyInstagram cfg net igPsid msg st) = Inr r)
   \<and> (net (calls st) (send_call cfg igPsid msg) = Resolved resp
        \<longrightarrow> fst (tryReplyInstagram cfg net igPsid msg st)
              = Inr (Obj [(''ok'', Bool True), (''data'', resp_data resp)]))
   \<and> (net (calls st) (send_call cfg igPsid msg) = Rejected (Some resp)
         \<and> resp_data resp = Obj d \<and> own_prop d ''error'' = Obj e
        \<longrightarrow> fst (tryReplyInstagram cfg net igPsid msg st)
              = Inr (Obj [(''ok'', Bool False),
                          (''error'',
                           Obj [(''status'', Num (resp_status resp)),
                                (''code'', own_prop e ''code''),
                                (''subcode'', own_prop e ''error_subcode''),
                                (''message'', own_prop e ''message''),
                                (''type'', own_prop e ''type'')])]))
   \<and> (net (calls st) (send_call cfg igPsid msg) = Rejected None
        \<longrightarrow> fst (tryReplyInstagram cfg net igPsid msg st)
              = Inr (Obj [(''ok'', Bool False),
                          (''error'',
                           Obj [(''status'', Undefined), (''code'', Undefined),
                                (''subcode'', Undefined), (''message'', Undefined),
                                (''type'', Undefined)])]))
   \<and> (net (calls st) (send_call cfg igPsid msg) = Rejected r
        \<longrightarrow> (\<exists>s c sc m t.
               fst (tryReplyInstagram cfg net igPsid msg st)
                 = Inr (Obj [(''ok'', Bool False),
                             (''error'',
                              Obj [(''status'', s), (''code'', c), (''subcode'', sc),
                                   (''message'', m), (''type'', t)])])))
   \<and> calls (snd (tryReplyInstagram cfg net igPsid msg st))
         = calls st @ [send_call cfg igPsid msg]"
proof (intro conjI impI)
  from tryReplyInstagram_returns [of cfg net igPsid msg st]
  show "\<exists>r. fst (tryReplyInstagram cfg net igPsid msg st) = Inr r"
    by auto
next
  assume "net (calls st) (send_call cfg igPsid msg) = Resolved resp"
  then show "fst (tryReplyInstagram cfg net igPsid msg st)
              = Inr (Obj [(''ok'', Bool True), (''data'', resp_data resp)])"
    by (simp add: tryReplyInstagram_Resolved)
next
  assume "net (calls st) (send_call cfg igPsid msg) = Rejected (Some resp)
         \<and> resp_data resp = Obj d \<and> own_prop d ''error'' = Obj e"
  then show "fst (tryReplyInstagram cfg net igPsid msg st)
              = Inr (Obj [(''ok'', Bool False),
                          (''error'',
                           Obj [(''status'', Num (resp_status resp)),
                                (''code'', own_prop e ''code''),
                                (''subcode'', own_prop e ''error_subcode''),
                                (''message'', own_prop e ''message''),
                                (''type'', own_prop e ''type'')])])"
    by (simp add: tryReplyInstagram_Rejected js_or_def)
next
  assume "net (calls st) (send_call cfg igPsid msg) = Rejected None"
  then show "fst (tryReplyInstagram cfg net igPsid msg st)
              = Inr (Obj [(''ok'', Bool False),
                          (''error'',
                           Obj [(''status'', Undefined), (''code'', Undefined),
                                (''subcode'', Undefined), (''message'', Undefined),
                                (''type'', Undefined)])])"
    by (simp add: tryReplyInstagram_Rejected js_or_def own_prop_def)
next
  assume "net (calls st) (send_call cfg igPsid msg) = Rejected r"
  then show "\<exists>s c sc m t.
               fst (tryReplyInstagram cfg net igPsid msg st)
                 = Inr (Obj [(''ok'', Bool False),
                             (''error'',
                              Obj [(''status'', s), (''code'', c), (''subcode'', sc),
                                   (''message'', m), (''type'', t)])])"
    by (simp add: tryReplyInstagram_Rejected)
next
  from tryReplyInstagram_returns [of cfg net igPsid msg st]
  show "calls (snd (tryReplyInstagram cfg net igPsid msg st))
         = calls st @ [send_call cfg igPsid msg]"
    by auto
qed

theorem tryReplyInstagram_never_throws_witness:
  "fst (tryReplyInstagram sample_env network_ok (Str ''U1'') ''hello'' initial_state)
     = Inr (Obj [(''ok'', Bool True),
                 (''data'', Obj [(''recipient_id'', Str ''U1''), (''message_id'', Str ''m-1'')])])
   \<and> fst (tryReplyInstagram sample_env network_denied (Str ''U1'') ''hello'' initial_state)
     = Inr (Obj [(''ok'', Bool False),
                 (''error'',
                  Obj [(''status'', Num 400), (''code'', Num 10), (''subcode'', Num 2018278),
                       (''message'', Str ''outside the allowed window''),
                       (''type'', Str ''OAuthException'')])])
   \<and> fst (tryReplyInstagram sample_env network_down (Str ''U1'') ''hello'' initial_state)
     = Inr (Obj [(''ok'', Bool False),
                 (''error'',
                  Obj [(''status'', Undefined), (''code'', Undefined), (''subcode'', Undefined),
                       (''message'', Undefined), (''type'', Undefined)])])"
proof -
  let ?ok = "\<lparr>resp_status = 200,
              resp_data = Obj [(''recipient_id'', Str ''U1''), (''message_id'', Str ''m-1'')]\<rparr>"
  let ?e = "[(''message'', Str ''outside the allowed window''), (''type'', Str ''OAuthException''),
             (''code'', Num 10), (''error_subcode'', Num 2018278)]"
  let ?denied = "\<lparr>resp_status = 400, resp_data = Obj [(''error'', Obj ?e)]\<rparr>"
  have a: "network_ok (calls initial_state) (send_call sample_env (Str ''U1'') ''hello'')
             = Resolved ?ok"
    by (simp add: network_ok_def)
  have b: "network_denied (calls initial_state) (send_call sample_env (Str ''U1'') ''hello'')
             = Rejected (Some ?denied)
           \<and> resp_data ?denied = Obj [(''error'', Obj ?e)]
           \<and> own_prop [(''error'', Obj ?e)] ''error'' = Obj ?e"
    by (simp add: network_denied_def own_prop_def)
  have c: "network_down (calls initial_state) (send_call sample_env (Str ''U1'') ''hello'')
             = Rejected None"
    by (simp add: network_down_def)
  from a tryReplyInstagram_never_throws
         [where cfg = sample_env and net = network_ok and igPsid = "Str ''U1''"
            and msg = "''hello''" and st = initial_state and resp = ?ok]
  have r1: "fst (tryReplyInstagram sample_env network_ok (Str ''U1'') ''hello'' initial_state)
     = Inr (Obj [(''ok'', Bool True), (''data'', resp_data ?ok)])"
    by blast
  from b tryReplyInstagram_never_throws
         [where cfg = sample_env and net = network_denied and igPsid = "Str ''U1''"
            and msg = "''hello''" and st = initial_state and resp = ?denied
            and d = "[(''error'', Obj ?e)]" and e = ?e]
  have r2: "fst (tryReplyInstagram sample_env network_denied (Str ''U1'') ''hello'' initial_state)
     = Inr (Obj [(''ok'', Bool False),
                 (''error'',
                  Obj [(''status'', Num (resp_status ?denied)),
                       (''code'', own_prop ?e ''code''),
                       (''subcode'', own_prop ?e ''error_subcode''),
                       (''message'', own_prop ?e ''message''),
                       (''type'', own_prop ?e ''type'')])])"
    by blast
  from c tryReplyInstagram_never_throws
         [where cfg = sample_env and net = network_down and igPsid = "Str ''U1''"
            and msg = "''hello''" and st = initial_state]
  have r3: "fst (tryReplyInstagram sample_env network_down (Str ''U1'') ''hello'' initial_state)
     = Inr (Obj [(''ok'', Bool False),
                 (''error'',
                  Obj [(''status'', Undefined), (''code'', Undefined), (''subcode'', Undefined),
                       (''message'', Undefined), (''type'', Undefined)])])"
    by blast
  from r1 r2 r3 show ?thesis
    by (simp add: own_prop_def)
qed




section \<open>The webhook receiver: proofs\<close>

lemma handle_event_replies:
  assumes "truthy (opt_get (opt_get event ''sender'') ''id'')"
    and "truthy (opt_get event ''message'')"
    and "ToString (js_or (opt_get (opt_get event ''message'') ''text'') (Str ''(no text)'')) = Inr T"
  shows "\<exists>r. handle_event cfg net event st =
           (Inr (),
            st\<lparr>calls := calls st @ [send_call cfg (opt_get (opt_get event ''sender'') ''id'') (replyText T)],
               console := console st @ [Log_reply_attempt r]\<rparr>)"
proof -
  let ?id = "opt_get (opt_get event ''sender'') ''id''"
  obtain r where r: "tryReplyInstagram cfg net ?id (replyText T) st
       = (Inr r, st\<lparr>calls := calls st @ [send_call cfg ?id (replyText T)]\<rparr>)"
    using tryReplyInstagram_returns by blast
  with assms have "handle_event cfg net event st =
           (Inr (), st\<lparr>calls := calls st @ [send_call cfg ?id (replyText T)],
               console := console st @ [Log_reply_attempt r]\<rparr>)"
    by (simp add: handle_event_def io_defs Let_def)
  then show ?thesis by blast
qed


lemma handle_event_raises:
  assumes "truthy (opt_get (opt_get event ''sender'') ''id'')"
    and "truthy (opt_get event ''message'')"
    and "ToString (js_or (opt_get (opt_get event ''message'') ''text'') (Str ''(no text)'')) = Inl e"
  shows "handle_event cfg net event st = (Inl e, st)"
  using assms by (simp add: handle_event_def io_defs Let_def)

text \<open>
  Claim C7. For every event that carries a sender id and a message (both truthy, as line
  163 tests them) and whose text converts to a string \<open>T\<close>, the handler makes one
  request: a POST to the messages endpoint whose payload is
  \<^verbatim>\<open>{messaging_product: 'instagram', recipient: {id: senderId}, message: {text: ...}}\<close>
  with the text \<^verbatim>\<open>Thanks for messaging us! You said:\<close> followed by \<open>T\<close> in double
  quotes. \<open>T\<close> is the message text when that is a non-empty string, and
  \<^verbatim>\<open>(no text)\<close> when the text is absent (falsy).
\<close>

theorem handle_event_reply_payload:
  assumes "truthy (opt_get (opt_get event ''sender'') ''id'')"
    and "truthy (opt_get event ''message'')"
    and "ToString (js_or (opt_get (opt_get event ''message'') ''text'') (Str ''(no text)'')) = Inr T"
  shows "calls (snd (handle_event cfg net event st)) =
           calls st @
             [HttpPost ''https://graph.facebook.com/v21.0/me/messages''
                (Obj [(''messaging_product'', Str ''instagram''),
                      (''recipient'', Obj [(''id'', opt_get (opt_get event ''sender'') ''id'')]),
                      (''message'',
                       Obj [(''text'',
                             Str (''Thanks for messaging us! You said: ''
                                    @ [CHR 0x22] @ T @ [CHR 0x22]))])])
                [(''Authorization'', ''Bearer '' @ text_of (PAGE_ACCESS_TOKEN cfg))]]
         \<and> (\<forall>t. opt_get (opt_get event ''message'') ''text'' = Str t \<and> t \<noteq> [] \<longrightarrow> T = t)
         \<and> (\<not> truthy (opt_get (opt_get event ''message'') ''text'') \<longrightarrow> T = ''(no text)'')"
proof (intro conjI allI impI)
  from handle_event_replies [OF assms, of cfg net st]
  show "calls (snd (handle_event cfg net event st)) =
           calls st @
             [HttpPost ''https://graph.facebook.com/v21.0/me/messages''
                (Obj [(''messaging_product'', Str ''instagram''),
                      (''recipient'', Obj [(''id'', opt_get (opt_get event ''sender'') ''id'')]),
                      (''message'',
                       Obj [(''text'',
                             Str (''Thanks for messaging us! You said: ''
                                    @ [CHR 0x22] @ T @ [CHR 0x22]))])])
                [(''Authorization'', ''Bearer '' @ text_of (PAGE_ACCESS_TOKEN cfg))]]"
    by (auto simp: send_call_def payload_def replyText_def)
next
  fix t
  assume "opt_get (opt_get event ''message'') ''text'' = Str t \<and> t \<noteq> []"
  with assms(3) show "T = t"
    by (simp add: js_or_def)
next
  assume "\<not> truthy (opt_get (opt_get event ''message'') ''text'')"
  with assms(3) show "T = ''(no text)''"
    by (simp add: js_or_def)
qed

theorem handle_event_reply_payload_witness:
  "truthy (opt_get (opt_get hi_event ''sender'') ''id'')
   \<and> truthy (opt_get hi_event ''message'')
   \<and> calls (snd (handle_event sample_env network_ok hi_event initial_state)) =
       [HttpPost ''https://graph.facebook.com/v21.0/me/messages''
          (Obj [(''messaging_product'', Str ''instagram''),
                (''recipient'', Obj [(''id'', Str ''U1'')]),
                (''message'',
                 Obj [(''text'',
                       Str (''Thanks for messaging us! You said: ''
                              @ [CHR 0x22] @ ''hi'' @ [CHR 0x22]))])])
          [(''Authorization'', ''Bearer page-token'')]]
   \<and> fst (webhook_post sample_digest sample_env network_ok example_request initial_state)
       = Inr (SendStatus 200)
   \<and> calls (snd (webhook_post sample_digest sample_env network_ok example_request
                    initial_state))
       = calls (snd (handle_event sample_env network_ok hi_event initial_state))"
proof -
  have a: "truthy (opt_get (opt_get hi_event ''sender'') ''id'')"
    and b: "truthy (opt_get hi_event ''message'')"
    and c: "ToString (js_or (opt_get (opt_get hi_event ''message'') ''text'') (Str ''(no text)''))
              = Inr ''hi''"
    and d: "opt_get (opt_get hi_event ''sender'') ''id'' = Str ''U1''"
    by (simp_all add: hi_event_def own_prop_def js_or_def)
  from handle_event_reply_payload [OF a b c, of sample_env network_ok initial_state] d
  have e: "calls (snd (handle_event sample_env network_ok hi_event initial_state)) =
       [HttpPost ''https://graph.facebook.com/v21.0/me/messages''
          (Obj [(''messaging_product'', Str ''instagram''),
                (''recipient'', Obj [(''id'', Str ''U1'')]),
                (''message'',
                 Obj [(''text'',
                       Str (''Thanks for messaging us! You said: ''
                              @ [CHR 0x22] @ ''hi'' @ [CHR 0x22]))])])
          [(''Authorization'', ''Bearer page-token'')]]"
    by (simp add: initial_state_def sample_env_def)
  have f: "webhook_post sample_digest sample_env network_ok example_request initial_state
       = (Inr (SendStatus 200),
          \<lparr>calls = [send_call sample_env (Str ''U1'') (replyText ''hi'')],
           console =
             [Log_request example_request,
              Log_incoming_webhook (body example_request),
              Log_reply_attempt
                (Obj [(''ok'', Bool True),
                      (''data'',
                       Obj [(''recipient_id'', Str ''U1''), (''message_id'', Str ''m-1'')])])]\<rparr>)"
    by (simp add: webhook_post_def io_defs process_body_def
        handle_entry_def changes_def handle_event_def tryReplyInstagram_def await_axios_apply
        example_request_def hi_event_def initial_state_def
        network_ok_def own_prop_def js_or_def Let_def
        verifyMetaSignature_def verifyMetaSignature_try_def)
  from e f have g: "calls (snd (webhook_post sample_digest sample_env network_ok example_request
                    initial_state))
       = calls (snd (handle_event sample_env network_ok hi_event initial_state))"
    by (simp add: send_call_def payload_def replyText_def sample_env_def)
  from a b e f g show ?thesis by simp
qed

lemma log_processing_error_returns: "fst (log_processing_error err st) = Inr ()"
  by (simp add: log_processing_error_def console_log_def)

lemma try_catch_log_returns:
  "fst (try_catch m log_processing_error st) = Inr ()"
proof (cases "m st")
  case (Pair r st')
  show ?thesis
  proof (cases r)
    case (Inl e)
    with Pair log_processing_error_returns [of e st'] show ?thesis
      by (simp add: io_defs)
  next
    case (Inr u)
    with Pair show ?thesis by (simp add: io_defs)
  qed
qed

lemma get_prop_defined:
  "b \<noteq> Undefined \<Longrightarrow> b \<noteq> Null \<Longrightarrow> \<exists>v. get_prop b k = Inr v"
  by (cases b) simp_all

text \<open>
  What holds of the acknowledgement. If signature verification fails, the handler answers
  403 and does nothing else (the state changes by the one log line of the request: no
  outbound request). If verification passes and \<^verbatim>\<open>req.body\<close> is a value (anything but
  \<^verbatim>\<open>undefined\<close> and \<^verbatim>\<open>null\<close>, whatever its shape), then for every behaviour of the
  network the handler answers 200: an exception raised inside the \<^verbatim>\<open>try\<close> is caught and
  logged.
\<close>

lemma webhook_post_acknowledges:
  "(\<not> verifyMetaSignature hmac cfg req
      \<longrightarrow> webhook_post hmac cfg net req st
            = (Inr (SendStatus 403), st\<lparr>console := console st @ [Log_request req]\<rparr>))
   \<and> (verifyMetaSignature hmac cfg req \<and> body req \<noteq> Undefined \<and> body req \<noteq> Null
      \<longrightarrow> fst (webhook_post hmac cfg net req st) = Inr (SendStatus 200))"
proof (intro conjI impI)
  assume "\<not> verifyMetaSignature hmac cfg req"
  then show "webhook_post hmac cfg net req st
            = (Inr (SendStatus 403), st\<lparr>console := console st @ [Log_request req]\<rparr>)"
    by (simp add: webhook_post_def io_defs)
next
  assume h: "verifyMetaSignature hmac cfg req \<and> body req \<noteq> Undefined \<and> body req \<noteq> Null"
  then obtain v where v: "get_prop (body req) ''object'' = Inr v"
    using get_prop_defined by blast
  let ?st = "st\<lparr>console := console st @ [Log_request req, Log_incoming_webhook (body req)]\<rparr>"
  let ?m = "try_catch (process_body cfg net (body req)) log_processing_error"
  have "fst (?m ?st) = Inr ()" by (rule try_catch_log_returns)
  then obtain st' where "?m ?st = (Inr (), st')"
    by (cases "?m ?st") auto
  with h v show "fst (webhook_post hmac cfg net req st) = Inr (SendStatus 200)"
    by (simp add: webhook_post_def io_defs)
qed

lemma webhook_post_acknowledges_example:
  "\<not> verifyMetaSignature sample_digest sample_env tampered_request
   \<and> webhook_post sample_digest sample_env network_down tampered_request initial_state
        = (Inr (SendStatus 403), \<lparr>calls = [], console = [Log_request tampered_request]\<rparr>)
   \<and> verifyMetaSignature sample_digest sample_env malformed_request
   \<and> body malformed_request \<noteq> Undefined \<and> body malformed_request \<noteq> Null
   \<and> fst (webhook_post sample_digest sample_env network_down malformed_request initial_state)
        = Inr (SendStatus 200)"
proof -
  have a: "\<not> verifyMetaSignature sample_digest sample_env tampered_request"
    by (simp add: verifyMetaSignature_def verifyMetaSignature_try_def tampered_request_def
        sample_env_def sample_digest_def timingSafeEqual_def Buffer_from_def utf8_unit_def)
  have b: "verifyMetaSignature sample_digest sample_env malformed_request"
    by (simp add: verifyMetaSignature_def verifyMetaSignature_try_def malformed_request_def)
  have c: "body malformed_request \<noteq> Undefined" and d: "body malformed_request \<noteq> Null"
    by (simp_all add: malformed_request_def)
  from a webhook_post_acknowledges
         [of sample_digest sample_env tampered_request network_down initial_state]
  have e: "webhook_post sample_digest sample_env network_down tampered_request initial_state
        = (Inr (SendStatus 403), \<lparr>calls = [], console = [Log_request tampered_request]\<rparr>)"
    by (simp add: initial_state_def)
  from b c d webhook_post_acknowledges
         [of sample_digest sample_env malformed_request network_down initial_state]
  have f: "fst (webhook_post sample_digest sample_env network_down malformed_request initial_state)
        = Inr (SendStatus 200)"
    by blast
  from a b c d e f show ?thesis by blast
qed

lemma malformed_request_trace:
  "webhook_post sample_digest sample_env network_down malformed_request initial_state
     = (Inr (SendStatus 200),
        \<lparr>calls = [send_call sample_env (Str ''U1'') (replyText ''hi'')],
         console =
           [Log_request malformed_request,
            Log_incoming_webhook (body malformed_request),
            Log_reply_attempt
              (Obj [(''ok'', Bool False),
                    (''error'',
                     Obj [(''status'', Undefined), (''code'', Undefined),
                          (''subcode'', Undefined), (''message'', Undefined),
                          (''type'', Undefined)])]),
            Log_processing_error
              (TypeError (''Cannot read properties of null (reading ''
                            @ [CHR 0x27] @ ''messaging'' @ [CHR 0x27] @ '')''))]\<rparr>)"
  by (simp add: webhook_post_def io_defs process_body_def
      handle_entry_def changes_def handle_event_def tryReplyInstagram_def await_axios_apply
      log_processing_error_def malformed_request_def hi_event_def initial_state_def
      network_down_def own_prop_def js_or_def Let_def
      verifyMetaSignature_def verifyMetaSignature_try_def)

text \<open>
  Claim C3 (fails on the code for a request without a parsed body). The request below has
  no signature header, so verification passes, and its \<^verbatim>\<open>req.body\<close> is
  \<^verbatim>\<open>undefined\<close>. The handler does not answer 200: \<^verbatim>\<open>body.object\<close> (line 149) is read
  before the \<^verbatim>\<open>try\<close> begins, raises a TypeError that nothing catches, and the handler's
  promise rejects without a response.
\<close>

theorem webhook_post_without_body_raises:
  "verifyMetaSignature sample_digest sample_env bodyless_request
   \<and> webhook_post sample_digest sample_env network_ok bodyless_request initial_state
       = (Inl (TypeError (''Cannot read properties of undefined (reading ''
                            @ [CHR 0x27] @ ''object'' @ [CHR 0x27] @ '')'')),
          \<lparr>calls = [],
           console = [Log_request bodyless_request, Log_incoming_webhook Undefined]\<rparr>)"
  by (simp add: webhook_post_def io_defs bodyless_request_def initial_state_def
      verifyMetaSignature_def verifyMetaSignature_try_def)






lemma reads_calls_onlyI:
  "(\<And>st1 st2. calls st1 = calls st2 \<Longrightarrow>
      fst (m st1) = fst (m st2) \<and> calls (snd (m st1)) = calls (snd (m st2)))
   \<Longrightarrow> reads_calls_only m"
  unfolding reads_calls_only_def by blast

lemma reads_calls_onlyD:
  "reads_calls_only m \<Longrightarrow> calls st1 = calls st2 \<Longrightarrow>
     fst (m st1) = fst (m st2) \<and> calls (snd (m st1)) = calls (snd (m st2))"
  unfolding reads_calls_only_def by blast

lemma reads_calls_only_return [simp]: "reads_calls_only (return_io x)"
  by (simp add: reads_calls_only_def return_io_def)

lemma reads_calls_only_throw [simp]: "reads_calls_only (throw e)"
  by (simp add: reads_calls_only_def throw_def)

lemma reads_calls_only_lift [simp]: "reads_calls_only (lift r)"
  by (simp add: reads_calls_only_def lift_def)

lemma reads_calls_only_console_log [simp]: "reads_calls_only (console_log l)"
  by (simp add: reads_calls_only_def console_log_def)

lemma reads_calls_only_await_axios [simp]: "reads_calls_only (await_axios net c)"
  by (simp add: reads_calls_only_def await_axios_apply)

lemma reads_calls_only_bind:
  assumes m: "reads_calls_only m" and f: "\<And>x. reads_calls_only (f x)"
  shows "reads_calls_only (bind_io m f)"
proof (rule reads_calls_onlyI)
  fix st1 st2 :: state
  assume eq: "calls st1 = calls st2"
  obtain r1 s1 where r1: "m st1 = (r1, s1)" by (cases "m st1")
  obtain r2 s2 where r2: "m st2 = (r2, s2)" by (cases "m st2")
  from reads_calls_onlyD [OF m eq] r1 r2 have "r2 = r1" and same: "calls s1 = calls s2"
    by simp_all
  with r2 have r2': "m st2 = (r1, s2)" by simp
  show "fst (bind_io m f st1) = fst (bind_io m f st2)
        \<and> calls (snd (bind_io m f st1)) = calls (snd (bind_io m f st2))"
  proof (cases r1)
    case (Inl e)
    with r1 r2' same show ?thesis by (simp add: io_defs)
  next
    case (Inr x)
    with r1 r2' reads_calls_onlyD [OF f [of x] same] show ?thesis
      by (simp add: io_defs)
  qed
qed

lemma reads_calls_only_try_catch:
  assumes m: "reads_calls_only m" and h: "\<And>e. reads_calls_only (h e)"
  shows "reads_calls_only (try_catch m h)"
proof (rule reads_calls_onlyI)
  fix st1 st2 :: state
  assume eq: "calls st1 = calls st2"
  obtain r1 s1 where r1: "m st1 = (r1, s1)" by (cases "m st1")
  obtain r2 s2 where r2: "m st2 = (r2, s2)" by (cases "m st2")
  from reads_calls_onlyD [OF m eq] r1 r2 have "r2 = r1" and same: "calls s1 = calls s2"
    by simp_all
  with r2 have r2': "m st2 = (r1, s2)" by simp
  show "fst (try_catch m h st1) = fst (try_catch m h st2)
        \<and> calls (snd (try_catch m h st1)) = calls (snd (try_catch m h st2))"
  proof (cases r1)
    case (Inl e)
    with r1 r2' reads_calls_onlyD [OF h [of e] same] show ?thesis
      by (simp add: io_defs)
  next
    case (Inr x)
    with r1 r2' same show ?thesis by (simp add: io_defs)
  qed
qed

lemma reads_calls_only_tryReplyInstagram: "reads_calls_only (tryReplyInstagram cfg net igPsid msg)"
  by (simp add: tryReplyInstagram_def Let_def reads_calls_only_try_catch reads_calls_only_bind)

lemma reads_calls_only_handle_event: "reads_calls_only (handle_event cfg net event)"
proof (cases "truthy (opt_get event ''message'') \<and> truthy (opt_get (opt_get event ''sender'') ''id'')")
  case True
  then have "handle_event cfg net event =
      bind_io (lift (ToString (js_or (opt_get (opt_get event ''message'') ''text'')
                 (Str ''(no text)'')))) (\<lambda>said.
      bind_io (tryReplyInstagram cfg net (opt_get (opt_get event ''sender'') ''id'')
                 (replyText said)) (\<lambda>result.
        console_log (Log_reply_attempt result)))"
    by (simp add: handle_event_def Let_def)
  then show ?thesis
    by (simp add: reads_calls_only_bind reads_calls_only_tryReplyInstagram)
next
  case False
  then have "handle_event cfg net event = return_io ()"
    by (auto simp: handle_event_def Let_def)
  then show ?thesis by simp
qed

lemma reads_calls_only_for_events: "reads_calls_only (for_events cfg net events)"
  by (induction events)
     (simp_all add: reads_calls_only_bind reads_calls_only_handle_event)

lemma reads_calls_only_handle_entry: "reads_calls_only (handle_entry cfg net entry)"
  by (simp add: handle_entry_def reads_calls_only_bind reads_calls_only_for_events)

lemma reads_calls_only_for_entries: "reads_calls_only (for_entries cfg net entries)"
  by (induction entries)
     (simp_all add: reads_calls_only_bind reads_calls_only_handle_entry)

lemma reads_calls_only_process_body: "reads_calls_only (process_body cfg net b)"
  by (simp add: process_body_def reads_calls_only_bind reads_calls_only_for_entries)

lemma reads_calls_only_log_processing_error: "reads_calls_only (log_processing_error err)"
  by (simp add: log_processing_error_def)

lemma reads_calls_only_processing:
  "reads_calls_only (try_catch (process_body cfg net b) log_processing_error)"
  by (intro reads_calls_only_try_catch reads_calls_only_process_body
        reads_calls_only_log_processing_error)

lemma process_body_entry_only:
  "get_prop b1 ''entry'' = get_prop b2 ''entry'' \<Longrightarrow>
     process_body cfg net b1 = process_body cfg net b2"
  by (simp add: process_body_def)

lemma webhook_post_verified:
  assumes "verifyMetaSignature hmac cfg req" and "body req = Obj kvs"
  shows "webhook_post hmac cfg net req st =
           (case try_catch (process_body cfg net (body req)) log_processing_error
                   (st\<lparr>console := console st @ [Log_request req, Log_incoming_webhook (body req)]\<rparr>)
            of (r, st') \<Rightarrow> (case r of Inl e \<Rightarrow> (Inl e, st') | Inr u \<Rightarrow> (Inr (SendStatus 200), st')))"
  using assms
  by (simp add: webhook_post_def io_defs split: prod.splits sum.splits)

text \<open>
  Claim C10. Two requests whose bodies are objects that agree on every property but
  \<^verbatim>\<open>object\<close>, and that get the same verdict of the signature check, make the handler
  issue the same outbound requests and give the same outcome, from any state.
\<close>

theorem webhook_post_ignores_object:
  assumes "body r1 = Obj kvs1" and "body r2 = Obj kvs2"
    and "\<forall>k. k \<noteq> ''object'' \<longrightarrow> map_of kvs1 k = map_of kvs2 k"
    and "verifyMetaSignature hmac cfg r1 = verifyMetaSignature hmac cfg r2"
  shows "fst (webhook_post hmac cfg net r1 st) = fst (webhook_post hmac cfg net r2 st)
         \<and> calls (snd (webhook_post hmac cfg net r1 st))
             = calls (snd (webhook_post hmac cfg net r2 st))"
proof (cases "verifyMetaSignature hmac cfg r1")
  case False
  with assms(4) show ?thesis
    by (simp add: webhook_post_def io_defs)
next
  case True
  with assms(4) have v2: "verifyMetaSignature hmac cfg r2" by simp
  from assms(1-3) have "get_prop (body r1) ''entry'' = get_prop (body r2) ''entry''"
    by (simp add: own_prop_def)
  then have pb: "process_body cfg net (body r1) = process_body cfg net (body r2)"
    by (rule process_body_entry_only)
  let ?m = "try_catch (process_body cfg net (body r2)) log_processing_error"
  let ?s1 = "st\<lparr>console := console st @ [Log_request r1, Log_incoming_webhook (body r1)]\<rparr>"
  let ?s2 = "st\<lparr>console := console st @ [Log_request r2, Log_incoming_webhook (body r2)]\<rparr>"
  have "calls ?s1 = calls ?s2" by simp
  with reads_calls_only_processing [of cfg net "body r2"]
  have same: "fst (?m ?s1) = fst (?m ?s2) \<and> calls (snd (?m ?s1)) = calls (snd (?m ?s2))"
    by (rule reads_calls_onlyD)
  from webhook_post_verified [OF True assms(1), of net st]
       webhook_post_verified [OF v2 assms(2), of net st] pb same
  show ?thesis
    by (auto split: prod.splits sum.splits)
qed

theorem webhook_post_ignores_object_witness:
  "fst (webhook_post sample_digest sample_env network_ok messaging_event_request initial_state)
     = fst (webhook_post sample_digest sample_env network_ok
              (messaging_event_request
                 \<lparr>body := Obj [(''object'', Str ''instagram''),
                               (''entry'', Arr [Obj [(''messaging'', Arr [hi_event])]])]\<rparr>)
              initial_state)
   \<and> calls (snd (webhook_post sample_digest sample_env network_ok messaging_event_request
                    initial_state))
     = calls (snd (webhook_post sample_digest sample_env network_ok
              (messaging_event_request
                 \<lparr>body := Obj [(''object'', Str ''instagram''),
                               (''entry'', Arr [Obj [(''messaging'', Arr [hi_event])]])]\<rparr>)
              initial_state))"
proof -
  let ?kvs1 = "[(''object'', Str ''page''), (''entry'', Arr [Obj [(''messaging'', Arr [hi_event])]])]"
  let ?kvs2 = "[(''object'', Str ''instagram''),
                (''entry'', Arr [Obj [(''messaging'', Arr [hi_event])]])]"
  let ?r2 = "messaging_event_request\<lparr>body := Obj ?kvs2\<rparr>"
  have a: "body messaging_event_request = Obj ?kvs1"
    by (simp add: messaging_event_request_def)
  have b: "body ?r2 = Obj ?kvs2"
    by simp
  have c: "\<forall>k. k \<noteq> ''object'' \<longrightarrow> map_of ?kvs1 k = map_of ?kvs2 k"
    by simp
  have d: "verifyMetaSignature sample_digest sample_env messaging_event_request
             = verifyMetaSignature sample_digest sample_env ?r2"
    by (simp add: verifyMetaSignature_def verifyMetaSignature_try_def messaging_event_request_def)
  from webhook_post_ignores_object [OF a b c d, of network_ok initial_state]
  show ?thesis .
qed

section \<open>The conversation lister: proofs\<close>

lemma bind_io_InrE:
  assumes "fst (bind_io m f st) = Inr r"
  obtains x st' where "m st = (Inr x, st')" and "fst (f x st') = Inr r"
proof (cases "m st")
  case (Pair q st')
  with assms show ?thesis
    by (cases q) (auto simp: bind_io_def intro: that)
qed

text \<open>Whatever the \<^verbatim>\<open>try\<close> body returns is the success document.\<close>

lemma ig_conversations_try_Json:
  assumes "fst (ig_conversations_try cfg net req st) = Inr r"
  shows "\<exists>d p. r = Json (Obj [(''success'', Bool True), (''data'', d), (''paging'', p)])"
proof -
  from assms obtain igUserId st1 where
    "fst (bind_io (lift (ToString igUserId)) (\<lambda>ig_id.
           bind_io
             (graphGet cfg net (conversations_url ig_id)
                (params req @
                   [(''fields'',
                     Str ''id,updated_time,participants.limit(50){id,username},link'')]))
             (\<lambda>data.
           bind_io (lift (get_prop data ''data'')) (\<lambda>d.
           bind_io (lift (get_prop data ''paging'')) (\<lambda>p.
             return_io
               (Json (Obj [(''success'', Bool True),
                           (''data'', js_or d (Arr [])),
                           (''paging'', js_or p Null)])))))) st1) = Inr r"
    unfolding ig_conversations_try_def
    by (rule bind_io_InrE)
  then obtain ig_id st2 where
    "fst (bind_io
             (graphGet cfg net (conversations_url ig_id)
                (params req @
                   [(''fields'',
                     Str ''id,updated_time,participants.limit(50){id,username},link'')]))
             (\<lambda>data.
           bind_io (lift (get_prop data ''data'')) (\<lambda>d.
           bind_io (lift (get_prop data ''paging'')) (\<lambda>p.
             return_io
               (Json (Obj [(''success'', Bool True),
                           (''data'', js_or d (Arr [])),
                           (''paging'', js_or p Null)]))))) st2) = Inr r"
    by (rule bind_io_InrE)
  then obtain data st3 where
    "fst (bind_io (lift (get_prop data ''data'')) (\<lambda>d.
           bind_io (lift (get_prop data ''paging'')) (\<lambda>p.
             return_io
               (Json (Obj [(''success'', Bool True),
                           (''data'', js_or d (Arr [])),
                           (''paging'', js_or p Null)])))) st3) = Inr r"
    by (rule bind_io_InrE)
  then obtain d st4 where
    "fst (bind_io (lift (get_prop data ''paging'')) (\<lambda>p.
             return_io
               (Json (Obj [(''success'', Bool True),
                           (''data'', js_or d (Arr [])),
                           (''paging'', js_or p Null)]))) st4) = Inr r"
    by (rule bind_io_InrE)
  then obtain p st5 where
    "fst (return_io
               (Json (Obj [(''success'', Bool True),
                           (''data'', js_or d (Arr [])),
                           (''paging'', js_or p Null)])) st5) = Inr r"
    by (rule bind_io_InrE)
  then show ?thesis by (auto simp: return_io_def)
qed

text \<open>
  The handler has two outcomes only: the success document, or a ReferenceError out of
  the \<^verbatim>\<open>catch\<close> block. It never answers with status 400.
\<close>

lemma ig_conversations_outcome:
  "(\<exists>d p. fst (ig_conversations cfg net req st)
            = Inr (Json (Obj [(''success'', Bool True), (''data'', d), (''paging'', p)])))
   \<or> fst (ig_conversations cfg net req st)
        = Inl (ReferenceError ''stringifyGraphError is not defined'')"
proof (cases "ig_conversations_try cfg net req st")
  case (Pair q st')
  show ?thesis
  proof (cases q)
    case (Inl e)
    with Pair show ?thesis
      by (simp add: ig_conversations_def io_defs)
  next
    case (Inr r)
    with Pair have "fst (ig_conversations_try cfg net req st) = Inr r" by simp
    then obtain d p where "r = Json (Obj [(''success'', Bool True), (''data'', d), (''paging'', p)])"
      using ig_conversations_try_Json by blast
    with Pair Inr show ?thesis
      by (simp add: ig_conversations_def io_defs)
  qed
qed

text \<open>The success half of claim C1 holds: the upstream data array or \<open>[]\<close>, the paging
  object or \<open>null\<close>.\<close>

lemma ig_conversations_success:
  assumes "getIGUserId cfg net st = (Inr igUserId, st1)"
    and "ToString igUserId = Inr ig_id"
    and "net (calls st1)
           (HttpGet (conversations_url ig_id)
              (params req
                 @ [(''fields'', Str ''id,updated_time,participants.limit(50){id,username},link''),
                    (''access_token'', env_value (PAGE_ACCESS_TOKEN cfg))]))
           = Resolved resp"
    and "get_prop (resp_data resp) ''data'' = Inr d"
    and "get_prop (resp_data resp) ''paging'' = Inr p"
  shows "fst (ig_conversations cfg net req st)
           = Inr (Json (Obj [(''success'', Bool True),
                             (''data'', js_or d (Arr [])),
                             (''paging'', js_or p Null)]))"
  using assms
  by (simp add: ig_conversations_def ig_conversations_try_def graphGet_def io_defs
      await_axios_apply)

text \<open>
  Claim C1 (the failure half fails on the code). When the first upstream request is
  rejected, the handler does not answer 400 with \<^verbatim>\<open>{success: false, error}\<close>: the
  \<^verbatim>\<open>catch\<close> block raises a ReferenceError (\<^verbatim>\<open>stringifyGraphError\<close> is not defined) and
  the handler's promise rejects after the one request.
\<close>

theorem ig_conversations_failure_is_ReferenceError:
  "ig_conversations sample_env network_down unsigned_request initial_state
     = (Inl (ReferenceError ''stringifyGraphError is not defined''),
        \<lparr>calls = [HttpGet (me_url sample_env) []], console = []\<rparr>)"
  by (simp add: ig_conversations_def ig_conversations_try_def io_defs getIGUserId_def
      await_axios_apply network_down_def initial_state_def)

text \<open>The same when the account is not linked: the resolution error reaches the
  \<^verbatim>\<open>catch\<close> block and is replaced by the ReferenceError.\<close>

lemma ig_conversations_unlinked_is_ReferenceError:
  "fst (ig_conversations sample_env network_unlinked unsigned_request initial_state)
     = Inl (ReferenceError ''stringifyGraphError is not defined'')"
  by (simp add: ig_conversations_def ig_conversations_try_def io_defs getIGUserId_def
      await_axios_apply network_unlinked_def initial_state_def own_prop_def js_or_def)

end
